theory Spec2Isabelle
  imports Main "HOL-Library.Product_Lexorder" "HOL-Library.AList" "HOL-Library.Multiset"
begin

section \<open>Shared data model of kpi/filters.py\<close>

text \<open>
  The exceptions that the filters of kpi/filters.py raise or catch. \<open>FieldError\<close> is
  Django's "cannot resolve keyword into field", raised by \<open>QuerySet.filter\<close> when the
  query is built; \<open>IndexError\<close> and \<open>ValueError\<close> are the Python built-ins;
  \<open>NotImplementedError\<close> is raised by SearchFilter for a search backend other than Whoosh;
  \<open>QueryParserError\<close> stands for a query text that the parser of Whoosh rejects.
\<close>

datatype error = FieldError | IndexError | ValueError | NotImplementedError | QueryParserError

text \<open>
  \<open>request.user\<close>: the attributes of the Django user object that the filters read.
\<close>

record principal =
  user_id :: int
  username :: string
  is_superuser :: bool
  is_anonymous :: bool

text \<open>\<open>request\<close>: the user and the query parameters; \<open>view\<close>: its action.\<close>

record request =
  user :: principal
  query_params :: "string \<rightharpoonup> string"

record view =
  action :: string

text \<open>
  \<open>queryset.model._meta\<close> and the part of the model's schema that decides whether a
  keyword of \<open>filter\<close> resolves: a model may or may not declare each of the fields the
  filters name, and so may the model its \<open>parent\<close> relation points to.
\<close>

record model_meta =
  app_label :: string
  model_name :: string
  has_asset_type :: bool
  has_discoverable_when_public :: bool
  has_usercollectionsubscription :: bool
  has_parent :: bool
  parent_has_uid :: bool
  parent_has_discoverable_when_public :: bool
  parent_has_usercollectionsubscription :: bool

text \<open>
  A row of a model that the permission and search filters run over (an asset or a
  collection). \<open>usercollectionsubscription\<close> holds the ids of the users with a
  subscription row pointing at the object. A field that the model does not declare is
  never read: every keyword is resolved against the schema first.
\<close>

datatype resource = Resource
  (pk: int) (uid: string) (asset_type: string) (discoverable_when_public: bool)
  (usercollectionsubscription: "int list") (parent: "resource option")

text \<open>
  A queryset: the model it ranges over and its rows. SQL leaves the order of the rows
  open; the theorems below speak of the set of rows wherever the source does not sort.
\<close>

record 'r queryset =
  model :: model_meta
  rows :: "'r list"

definition none :: "'r queryset \<Rightarrow> 'r queryset" where
  "none qs = qs\<lparr>rows := []\<rparr>"

definition distinct_qs :: "'r queryset \<Rightarrow> 'r queryset" where
  "distinct_qs qs = qs\<lparr>rows := remdups (rows qs)\<rparr>"

text \<open>\<open>a | b\<close>: the rows that either queryset selects.\<close>

definition qs_or :: "'r queryset \<Rightarrow> 'r queryset \<Rightarrow> 'r queryset" where
  "qs_or a b = a\<lparr>rows := rows a @ rows b\<rparr>"

text \<open>The keyword arguments that the filters pass to \<open>QuerySet.filter\<close>.\<close>

datatype lookup =
    Parent_is_None
  | Asset_type string
  | Asset_type__in "string list"
  | Parent__uid string
  | Pk__in "int list"
  | Discoverable_when_public bool
  | Parent__discoverable_when_public bool
  | Usercollectionsubscription__user int
  | Parent__usercollectionsubscription__user int

text \<open>Whether a keyword resolves against the schema (otherwise Django raises FieldError).\<close>

fun resolves :: "model_meta \<Rightarrow> lookup \<Rightarrow> bool" where
  "resolves m Parent_is_None = has_parent m"
| "resolves m (Asset_type t) = has_asset_type m"
| "resolves m (Asset_type__in ts) = has_asset_type m"
| "resolves m (Parent__uid u) = (has_parent m \<and> parent_has_uid m)"
| "resolves m (Pk__in ps) = True"
| "resolves m (Discoverable_when_public b) = has_discoverable_when_public m"
| "resolves m (Parent__discoverable_when_public b) =
     (has_parent m \<and> parent_has_discoverable_when_public m)"
| "resolves m (Usercollectionsubscription__user u) = has_usercollectionsubscription m"
| "resolves m (Parent__usercollectionsubscription__user u) =
     (has_parent m \<and> parent_has_usercollectionsubscription m)"

text \<open>Whether a row satisfies a keyword; a condition on the parent needs a parent.\<close>

fun holds :: "lookup \<Rightarrow> resource \<Rightarrow> bool" where
  "holds Parent_is_None r = (parent r = None)"
| "holds (Asset_type t) r = (asset_type r = t)"
| "holds (Asset_type__in ts) r = (asset_type r \<in> set ts)"
| "holds (Parent__uid u) r = (case parent r of None \<Rightarrow> False | Some p \<Rightarrow> uid p = u)"
| "holds (Pk__in ps) r = (pk r \<in> set ps)"
| "holds (Discoverable_when_public b) r = (discoverable_when_public r = b)"
| "holds (Parent__discoverable_when_public b) r =
     (case parent r of None \<Rightarrow> False | Some p \<Rightarrow> discoverable_when_public p = b)"
| "holds (Usercollectionsubscription__user u) r = (u \<in> set (usercollectionsubscription r))"
| "holds (Parent__usercollectionsubscription__user u) r =
     (case parent r of None \<Rightarrow> False | Some p \<Rightarrow> u \<in> set (usercollectionsubscription p))"

text \<open>
  \<open>queryset.filter(**kwargs)\<close>: FieldError when a keyword does not resolve, whatever
  the rows are; otherwise the rows that satisfy every keyword.
\<close>

definition qs_filter :: "lookup list \<Rightarrow> resource queryset \<Rightarrow> error + resource queryset" where
  "qs_filter kwargs qs =
     (if list_all (resolves (model qs)) kwargs
      then Inr (qs\<lparr>rows := filter (\<lambda>r. list_all (\<lambda>l. holds l r) kwargs) (rows qs)\<rparr>)
      else Inl FieldError)"

text \<open>\<open>str.lower()\<close> on ASCII text.\<close>

definition lower_char :: "char \<Rightarrow> char" where
  "lower_char c =
     (case map_of (zip ''ABCDEFGHIJKLMNOPQRSTUVWXYZ'' ''abcdefghijklmnopqrstuvwxyz'') c of
        None \<Rightarrow> c | Some d \<Rightarrow> d)"

definition lower :: "string \<Rightarrow> string" where
  "lower s = map lower_char s"

text \<open>\<open>distutils.util.strtobool\<close>: it lowers its argument and raises ValueError on
  anything but the twelve words it knows.\<close>

definition strtobool :: "string \<Rightarrow> error + bool" where
  "strtobool val =
     (if lower val \<in> set [''y'', ''yes'', ''t'', ''true'', ''on'', ''1''] then Inr True
      else if lower val \<in> set [''n'', ''no'', ''f'', ''false'', ''off'', ''0''] then Inr False
      else Inl ValueError)"

section \<open>KpiObjectPermissionsFilter\<close>

text \<open>
  What the filter takes from kpi/models/object_permission.py, which is outside the
  sources at hand: \<open>get_anonymous_user()\<close> and \<open>get_objects_for_user(user, perm,
  queryset)\<close>. Both are parameters of the model.
\<close>

record perm_env =
  get_anonymous_user :: principal
  get_objects_for_user :: "principal \<Rightarrow> string \<Rightarrow> resource queryset \<Rightarrow> resource queryset"

text \<open>\<open>perm_format % kwargs\<close> with \<open>perm_format = '%(app_label)s.view_%(model_name)s'\<close>.\<close>

definition permission :: "model_meta \<Rightarrow> string" where
  "permission m = app_label m @ ''.view_'' @ model_name m"

text \<open>Lines 48-49: the \<open>all_public\<close> parameter, \<open>'false'\<close> when absent.\<close>

definition all_public :: "request \<Rightarrow> error + bool" where
  "all_public req =
     strtobool (lower (case query_params req ''all_public'' of
                         None \<Rightarrow> ''false'' | Some v \<Rightarrow> v))"

text \<open>Lines 58-59: the user whose subscriptions are looked up.\<close>

definition effective_user :: "perm_env \<Rightarrow> principal \<Rightarrow> principal" where
  "effective_user env u = (if is_anonymous u then get_anonymous_user env else u)"

text \<open>Lines 58-65.\<close>

definition owned_and_explicitly_shared ::
  "perm_env \<Rightarrow> principal \<Rightarrow> resource queryset \<Rightarrow> resource queryset" where
  "owned_and_explicitly_shared env u qs =
     (if is_anonymous u then none qs
      else get_objects_for_user env u (permission (model qs)) qs)"

text \<open>Lines 66-67.\<close>

definition public :: "perm_env \<Rightarrow> resource queryset \<Rightarrow> resource queryset" where
  "public env qs = get_objects_for_user env (get_anonymous_user env) (permission (model qs)) qs"

text \<open>Lines 74-84: the setting of the model, else of its parent, else nothing.\<close>

definition discoverable :: "resource queryset \<Rightarrow> resource queryset" where
  "discoverable pub =
     (case qs_filter [Discoverable_when_public True] pub of
        Inr d \<Rightarrow> d
      | Inl e \<Rightarrow>
         (case qs_filter [Parent__discoverable_when_public True] pub of
            Inr d \<Rightarrow> d
          | Inl e' \<Rightarrow> none pub))"

text \<open>Lines 93-103: the subscription relation of the model, else of its parent, else
  nothing. The filter is applied to \<open>public\<close>.\<close>

definition subscribed :: "resource queryset \<Rightarrow> principal \<Rightarrow> resource queryset" where
  "subscribed pub u =
     (case qs_filter [Usercollectionsubscription__user (user_id u)] pub of
        Inr s \<Rightarrow> s
      | Inl e \<Rightarrow>
         (case qs_filter [Parent__usercollectionsubscription__user (user_id u)] pub of
            Inr s \<Rightarrow> s
          | Inl e' \<Rightarrow> none pub))"

text \<open>\<open>KpiObjectPermissionsFilter.filter_queryset\<close>, lines 39-105.\<close>

definition KpiObjectPermissionsFilter_filter_queryset ::
  "perm_env \<Rightarrow> request \<Rightarrow> resource queryset \<Rightarrow> view \<Rightarrow> error + resource queryset" where
  "KpiObjectPermissionsFilter_filter_queryset env req qs vw =
     (if is_superuser (user req) \<and> action vw \<noteq> ''list'' then Inr qs
      else
        (case all_public req of
           Inl e \<Rightarrow> Inl e
         | Inr all_pub \<Rightarrow>
            (let owned = owned_and_explicitly_shared env (user req) qs;
                 u = effective_user env (user req);
                 pub = public env qs
             in if action vw \<noteq> ''list'' then Inr (distinct_qs (qs_or owned pub))
                else if all_pub then Inr (distinct_qs (qs_or owned (discoverable pub)))
                else Inr (distinct_qs (qs_or owned (subscribed pub u))))))"

section \<open>SearchFilter\<close>

subsection \<open>The regular expression of \<open>library_collection_pattern\<close>\<close>

text \<open>
  The constructs of Python's \<open>re\<close> that the pattern uses: a literal character, a
  negated one-character class \<open>[^c]\<close>, concatenation, the greedy \<open>*\<close> and \<open>+\<close>, and
  a numbered capturing group.
\<close>

datatype rx = Chr char | NotChr char | Eps | Cat rx rx | Star rx | Plus rx | Grp nat rx

text \<open>
  A state of the matcher: the text still to be read and the groups captured so far.
  \<open>ms r st\<close> lists every way \<open>r\<close> can match at \<open>st\<close>, in the order in which the
  backtracking matcher tries them (a greedy repetition tries one more round before it
  tries to stop), so the head of the list is the match that \<open>re\<close> reports.
\<close>

type_synonym mstate = "string \<times> (nat \<times> string) list"

text \<open>
  Greedy repetition of \<open>f\<close>. A round that reads nothing ends the repetition, as in
  \<open>re\<close>, so a text of n characters allows at most n rounds.
\<close>

primrec greedy :: "nat \<Rightarrow> (mstate \<Rightarrow> mstate list) \<Rightarrow> mstate \<Rightarrow> mstate list" where
  "greedy 0 f st = [st]"
| "greedy (Suc n) f st =
     concat (map (greedy n f) (filter (\<lambda>st'. length (fst st') < length (fst st)) (f st)))
     @ [st]"

primrec ms :: "rx \<Rightarrow> mstate \<Rightarrow> mstate list" where
  "ms (Chr c) st =
     (case fst st of [] \<Rightarrow> [] | x # xs \<Rightarrow> if x = c then [(xs, snd st)] else [])"
| "ms (NotChr c) st =
     (case fst st of [] \<Rightarrow> [] | x # xs \<Rightarrow> if x \<noteq> c then [(xs, snd st)] else [])"
| "ms Eps st = [st]"
| "ms (Cat a b) st = concat (map (ms b) (ms a st))"
| "ms (Star r) st = greedy (length (fst st)) (ms r) st"
| "ms (Plus r) st = concat (map (\<lambda>st'. greedy (length (fst st')) (ms r) st') (ms r st))"
| "ms (Grp i r) st =
     map (\<lambda>st'. (fst st', (i, take (length (fst st) - length (fst st')) (fst st)) # snd st'))
       (ms r st)"

definition lit :: "string \<Rightarrow> rx" where
  "lit s = foldr (\<lambda>c r. Cat (Chr c) r) s Eps"

text \<open>
  Lines 130-132:
  \<^verbatim>\<open>\(((?:asset_type:(?:[^ ]+)(?: OR )*)+)\) AND \(parent__uid:([^)]+)\)\<close>
\<close>

definition library_collection_pattern :: rx where
  "library_collection_pattern =
     Cat (Chr CHR ''('')
      (Cat (Grp 1 (Plus (Cat (lit ''asset_type:'')
                          (Cat (Plus (NotChr CHR '' '')) (Star (lit '' OR ''))))))
       (Cat (lit '') AND (parent__uid:'')
        (Cat (Grp 2 (Plus (NotChr CHR '')''))) (Chr CHR '')''))))"

text \<open>
  \<open>library_collection_pattern.match(q)\<close> and its \<open>groups()\<close>: the match is anchored at
  the start of \<open>q\<close> only. Both groups take part in every match.
\<close>

definition library_collection_match :: "string \<Rightarrow> (string \<times> string) option" where
  "library_collection_match q =
     (case ms library_collection_pattern (q, []) of
        [] \<Rightarrow> None
      | st # _ \<Rightarrow>
         (case (map_of (snd st) 1, map_of (snd st) 2) of
            (Some g1, Some g2) \<Rightarrow> Some (g1, g2)
          | _ \<Rightarrow> None))"

subsection \<open>\<open>str.split\<close>\<close>

text \<open>
  \<open>s.split(sep)\<close> for a separator that is not empty (Python raises ValueError on an
  empty one; both calls of the filter pass a literal): \<open>acc\<close> holds the piece being
  read, reversed.
\<close>

fun split_from :: "string \<Rightarrow> string \<Rightarrow> string \<Rightarrow> string list" where
  "split_from sep acc [] = [rev acc]"
| "split_from sep acc (c # cs) =
     (if sep \<noteq> [] \<and> take (length sep) (c # cs) = sep
      then rev acc # split_from sep [] (drop (length sep) (c # cs))
      else split_from sep (c # acc) cs)"

definition split :: "string \<Rightarrow> string \<Rightarrow> string list" where
  "split s sep = split_from sep [] s"

text \<open>Lines 171-174: \<open>type_query.split(':')[1]\<close> for each piece of group 1; a piece
  without a colon raises IndexError.\<close>

fun type_names :: "string list \<Rightarrow> error + string list" where
  "type_names [] = Inr []"
| "type_names (type_query # rest) =
     (case split type_query '':'' of
        _ # t # _ \<Rightarrow> (case type_names rest of Inl e \<Rightarrow> Inl e | Inr ts \<Rightarrow> Inr (t # ts))
      | _ \<Rightarrow> Inl IndexError)"

definition asset_types :: "string \<Rightarrow> error + string list" where
  "asset_types group1 = type_names (split group1 '' OR '')"

subsection \<open>The filter\<close>

text \<open>Lines 145-156.\<close>

definition COMMON_QUERY_TO_ORM_FILTER :: "string \<rightharpoonup> lookup list" where
  "COMMON_QUERY_TO_ORM_FILTER = map_of [
     (''asset_type:block'', [Asset_type ''block'']),
     (''asset_type:question'', [Asset_type ''question'']),
     (''asset_type:template'', [Asset_type ''template'']),
     (''asset_type:survey'', [Asset_type ''survey'']),
     (''asset_type:question OR asset_type:block'', [Asset_type__in [''question'', ''block'']]),
     (''asset_type:question OR asset_type:block OR asset_type:template'',
        [Asset_type__in [''question'', ''block'', ''template'']])]"

text \<open>
  A document of the Whoosh index, and what the filter takes from haystack and Whoosh:
  the configured backend, whether its setup has run, the query parser (\<open>None\<close> when it
  rejects the text, otherwise the documents that the parsed query matches), the
  documents of the index, whether the index of the model has a field
  \<open>users_granted_permission\<close>, and the constructor of the primary keys' type applied to
  an identifier of the index (\<open>None\<close> when it raises).
\<close>

record document =
  django_ct :: string
  django_id :: string
  users_granted_permission :: "string list"
  body :: string

record search_env =
  backend_is_whoosh :: bool
  setup_complete :: bool
  parse :: "string \<Rightarrow> (document \<Rightarrow> bool) option"
  index_documents :: "document list"
  index_has_users_granted_permission :: bool
  pk_type :: "string \<Rightarrow> int option"

text \<open>What the filter does to the search backend, in order.\<close>

datatype event = Get_backend | Setup | Parse | Get_index | Search | Probe

definition get_model_ct :: "model_meta \<Rightarrow> string" where
  "get_model_ct m = app_label m @ ''.'' @ model_name m"

text \<open>Lines 201-209.\<close>

definition filter_query :: "search_env \<Rightarrow> request \<Rightarrow> model_meta \<Rightarrow> document \<Rightarrow> bool" where
  "filter_query env req m d =
     (django_ct d = get_model_ct m \<and>
      (index_has_users_granted_permission env \<longrightarrow>
         username (user req) \<in> set (users_granted_permission d)))"

text \<open>Lines 225-230.\<close>

fun results_pks :: "(string \<Rightarrow> int option) \<Rightarrow> document list \<Rightarrow> error + int list" where
  "results_pks coerce [] = Inr []"
| "results_pks coerce (x # xs) =
     (case coerce (django_id x) of
        None \<Rightarrow> Inl ValueError
      | Some p \<Rightarrow> (case results_pks coerce xs of Inl e \<Rightarrow> Inl e | Inr ps \<Rightarrow> Inr (p # ps)))"

text \<open>Lines 184-232: the fall-back to Whoosh.\<close>

definition whoosh ::
  "search_env \<Rightarrow> request \<Rightarrow> string \<Rightarrow> resource queryset
     \<Rightarrow> event list \<times> (error + resource queryset)" where
  "whoosh env req q qs =
     (let queryset_pks = map pk (rows qs)
      in if length queryset_pks = 0 then ([], Inr qs)
         else if \<not> backend_is_whoosh env then ([Get_backend], Inl NotImplementedError)
         else
           (let started = Get_backend # (if setup_complete env then [] else [Setup])
            in case parse env q of
                 None \<Rightarrow> (started @ [Parse], Inl QueryParserError)
               | Some user_query \<Rightarrow>
                  (let results = filter (\<lambda>d. user_query d \<and> filter_query env req (model qs) d)
                                   (index_documents env)
                   in if results = [] \<and>
                         filter (filter_query env req (model qs)) (index_documents env) = []
                      then (started @ [Parse, Get_index, Search, Probe], Inr qs)
                      else
                        (started @ [Parse, Get_index, Search]
                           @ (if results = [] then [Probe] else []),
                         case results_pks (pk_type env) results of
                           Inl e \<Rightarrow> Inl e
                         | Inr ps \<Rightarrow>
                            qs_filter [Pk__in (filter (\<lambda>p. p \<in> set queryset_pks) ps)] qs))))"

text \<open>Lines 135-138: an empty \<open>parent\<close> parameter asks for the objects without parent.\<close>

definition narrow_parent :: "request \<Rightarrow> resource queryset \<Rightarrow> error + resource queryset" where
  "narrow_parent req qs =
     (if query_params req ''parent'' = Some [] then qs_filter [Parent_is_None] qs
      else Inr qs)"

text \<open>\<open>SearchFilter.filter_queryset\<close>, lines 134-232, with the events at the search
  backend beside the result.\<close>

definition SearchFilter_filter_queryset ::
  "search_env \<Rightarrow> request \<Rightarrow> resource queryset
     \<Rightarrow> event list \<times> (error + resource queryset)" where
  "SearchFilter_filter_queryset env req qs0 =
     (case narrow_parent req qs0 of
        Inl e \<Rightarrow> ([], Inl e)
      | Inr qs \<Rightarrow>
         (case query_params req ''q'' of
            None \<Rightarrow> ([], Inr qs)
          | Some q \<Rightarrow>
             (case COMMON_QUERY_TO_ORM_FILTER q of
                Some kwargs \<Rightarrow>
                  (case qs_filter kwargs qs of
                     Inr r \<Rightarrow> ([], Inr r)
                   | Inl e \<Rightarrow> ([], if e = FieldError then Inr (none qs) else Inl e))
              | None \<Rightarrow>
                  (case library_collection_match q of
                     Some groups \<Rightarrow>
                       (case asset_types (fst groups) of
                          Inl e \<Rightarrow> ([], Inl e)
                        | Inr types \<Rightarrow>
                           (case qs_filter [Asset_type__in types, Parent__uid (snd groups)] qs of
                              Inr r \<Rightarrow> ([], Inr r)
                            | Inl e \<Rightarrow> ([], if e = FieldError then Inr (none qs) else Inl e)))
                   | None \<Rightarrow> whoosh env req q qs))))"

section \<open>KpiAssignedObjectPermissionsFilter\<close>

text \<open>A row of ObjectPermission: its key, the object it is about (content type and
  object id) and the user it is addressed to.\<close>

datatype object_permission = ObjectPermission
  (op_pk: int) (content_type_id: int) (object_id: int) (op_user: int)

text \<open>Lines 251-258: the loop over the content types, \<open>object_permission_ids\<close> being
  extended at each round.\<close>

fun object_permission_ids :: "principal \<Rightarrow> object_permission list \<Rightarrow> int list \<Rightarrow> int list" where
  "object_permission_ids u queryset [] = []"
| "object_permission_ids u queryset (ct # content_type_ids) =
     map op_pk
       (filter
          (\<lambda>p. object_id p \<in> set (map object_id
                   (filter (\<lambda>g. content_type_id g = ct \<and> op_user g = user_id u) queryset)))
          queryset)
     @ object_permission_ids u queryset content_type_ids"

text \<open>
  \<open>KpiAssignedObjectPermissionsFilter.filter_queryset\<close>, lines 236-259. Its parameters
  from outside the file are \<open>get_anonymous_user()\<close> and \<open>settings.ANONYMOUS_USER_ID\<close>.
\<close>

definition KpiAssignedObjectPermissionsFilter_filter_queryset ::
  "principal \<Rightarrow> int \<Rightarrow> request \<Rightarrow> object_permission list \<Rightarrow> object_permission list" where
  "KpiAssignedObjectPermissionsFilter_filter_queryset anon ANONYMOUS_USER_ID req queryset =
     (let u = (if is_anonymous (user req) then anon else user req)
      in if is_superuser u then queryset
         else if user_id u = ANONYMOUS_USER_ID
              then filter (\<lambda>p. op_user p = user_id u) queryset
         else
           (let content_type_ids = remdups (map content_type_id queryset)
            in filter (\<lambda>p. op_pk p \<in> set (object_permission_ids u queryset content_type_ids))
                 queryset))"

section \<open>AttachmentFilter\<close>

text \<open>
  The values of a question or submission dict, and a dict as the list of its items
  (equal dicts are equal lists). \<open>truthy\<close> is Python's truth value.
\<close>

datatype jval = JNone | JBool bool | JInt int | JStr string

type_synonym dict = "(string \<times> jval) list"


text \<open>\<open>att.instance\<close> and an attachment, with the attributes that the filter reads.\<close>

record xinstance =
  instance_id :: int
  uuid :: string
  submission :: "dict option"

record attachment =
  att_pk :: int
  mimetype :: string
  question_index :: int
  question :: "dict option"
  att_instance :: xinstance





















section \<open>Concrete data for the examples\<close>

text \<open>
  An instance of the permission lookup: a table of pairs (user id, object key), a user
  seeing the rows of the queryset that the table grants to them.
\<close>

definition objects_granted ::
  "(int \<times> int) list \<Rightarrow> principal \<Rightarrow> string \<Rightarrow> resource queryset \<Rightarrow> resource queryset" where
  "objects_granted grants u perm qs =
     qs\<lparr>rows := filter (\<lambda>r. (user_id u, pk r) \<in> set grants) (rows qs)\<rparr>"

text \<open>The stored user that stands for everybody, a visitor who is not logged in, a
  regular user and a superuser.\<close>

definition anonymous :: principal where
  "anonymous =
     \<lparr>user_id = -1, username = ''AnonymousUser'', is_superuser = False, is_anonymous = False\<rparr>"

definition visitor :: principal where
  "visitor = \<lparr>user_id = 0, username = [], is_superuser = False, is_anonymous = True\<rparr>"

definition alice :: principal where
  "alice = \<lparr>user_id = 2, username = ''alice'', is_superuser = False, is_anonymous = False\<rparr>"

definition root :: principal where
  "root = \<lparr>user_id = 1, username = ''root'', is_superuser = True, is_anonymous = False\<rparr>"

definition example_env :: "(int \<times> int) list \<Rightarrow> perm_env" where
  "example_env grants =
     \<lparr>get_anonymous_user = anonymous, get_objects_for_user = objects_granted grants\<rparr>"

text \<open>Collections: a model with a discoverability setting and a subscription relation.
  The first is public but not discoverable, and alice has subscribed to it; the second is
  public and discoverable, and the stored anonymous user has a subscription to it.\<close>

definition collection_model :: model_meta where
  "collection_model =
     \<lparr>app_label = ''kpi'', model_name = ''collection'', has_asset_type = False,
      has_discoverable_when_public = True, has_usercollectionsubscription = True,
      has_parent = True, parent_has_uid = True, parent_has_discoverable_when_public = True,
      parent_has_usercollectionsubscription = True\<rparr>"

definition hidden_collection :: resource where
  "hidden_collection = Resource 1 ''c1'' [] False [2] None"

definition shown_collection :: resource where
  "shown_collection = Resource 2 ''c2'' [] True [-1] None"

definition collections :: "resource queryset" where
  "collections = \<lparr>model = collection_model, rows = [hidden_collection, shown_collection]\<rparr>"

text \<open>Two permission rows about objects of different content types with the same
  object id: the first addressed to alice, the second to somebody else.\<close>

definition alice_grant :: object_permission where
  "alice_grant = ObjectPermission 1 1 5 2"

definition carol_grant :: object_permission where
  "carol_grant = ObjectPermission 2 2 5 3"

text \<open>Assets, whose model declares \<open>asset_type\<close> and a parent collection, and tags,
  whose model declares neither.\<close>

definition asset_model :: model_meta where
  "asset_model =
     \<lparr>app_label = ''kpi'', model_name = ''asset'', has_asset_type = True,
      has_discoverable_when_public = False, has_usercollectionsubscription = False,
      has_parent = True, parent_has_uid = True, parent_has_discoverable_when_public = True,
      parent_has_usercollectionsubscription = True\<rparr>"

definition tag_model :: model_meta where
  "tag_model =
     \<lparr>app_label = ''taggit'', model_name = ''tag'', has_asset_type = False,
      has_discoverable_when_public = False, has_usercollectionsubscription = False,
      has_parent = False, parent_has_uid = False, parent_has_discoverable_when_public = False,
      parent_has_usercollectionsubscription = False\<rparr>"

definition library :: resource where
  "library = Resource 10 ''abc123'' [] True [] None"

definition other_library :: resource where
  "other_library = Resource 11 ''xyz789'' [] True [] None"

definition question_asset :: resource where
  "question_asset = Resource 1 ''a1'' ''question'' False [] (Some library)"

definition block_asset :: resource where
  "block_asset = Resource 2 ''a2'' ''block'' False [] (Some library)"

definition survey_asset :: resource where
  "survey_asset = Resource 3 ''a3'' ''survey'' False [] (Some library)"

definition stray_block :: resource where
  "stray_block = Resource 4 ''a4'' ''block'' False [] (Some other_library)"

definition orphan_block :: resource where
  "orphan_block = Resource 5 ''a5'' ''block'' False [] None"

definition assets :: "resource queryset" where
  "assets = \<lparr>model = asset_model,
     rows = [question_asset, block_asset, survey_asset, stray_block, orphan_block]\<rparr>"

definition tags :: "resource queryset" where
  "tags = \<lparr>model = tag_model, rows = [Resource 7 ''t7'' [] False [] None]\<rparr>"

definition no_tags :: "resource queryset" where
  "no_tags = \<lparr>model = tag_model, rows = []\<rparr>"

definition no_assets :: "resource queryset" where
  "no_assets = \<lparr>model = asset_model, rows = []\<rparr>"

definition example_index :: "document list \<Rightarrow> search_env" where
  "example_index docs =
     \<lparr>backend_is_whoosh = True, setup_complete = True,
      parse = (\<lambda>q. Some (\<lambda>d. body d = q)),
      index_documents = docs,
      index_has_users_granted_permission = True,
      pk_type = map_of [(''1'', 1), (''2'', 2), (''3'', 3), (''4'', 4), (''5'', 5)]\<rparr>"

definition collection_document :: document where
  "collection_document =
     \<lparr>django_ct = ''kpi.collection'', django_id = ''10'', users_granted_permission = [''alice''],
      body = ''household''\<rparr>"












section \<open>Properties of KpiObjectPermissionsFilter\<close>

lemma lower_idem: "lower ''false'' = ''false''" "lower ''true'' = ''true''"
  by (simp_all add: lower_def lower_char_def)

lemma all_public_absent: "query_params req ''all_public'' = None \<Longrightarrow> all_public req = Inr False"
  by (simp add: all_public_def strtobool_def lower_idem)


lemmas example_defs = example_env_def objects_granted_def anonymous_def alice_def root_def
  visitor_def collection_model_def hidden_collection_def shown_collection_def collections_def

lemmas pipeline_defs = owned_and_explicitly_shared_def effective_user_def public_def
  discoverable_def subscribed_def qs_filter_def none_def distinct_qs_def qs_or_def permission_def

text \<open>
  Claim C1. The claim: for an authenticated user who is not a superuser, a list without
  \<open>all_public\<close> returns the owned or shared objects together with the subscribed ones,
  the subscribed ones being discoverable, so that every returned object that is neither
  owned nor shared is discoverable. The code filters \<open>public\<close>, not \<open>discoverable\<close>, by
  subscription (line 94), against its own comments at lines 72-73 and 91-92. Here alice
  lists two public collections; she has subscribed to the first, which is not
  discoverable. The filter returns it, although it is neither among her owned or shared
  objects nor among the discoverable ones.
\<close>

theorem subscribed_not_discoverable_is_listed:
  "KpiObjectPermissionsFilter_filter_queryset (example_env [(-1, 1), (-1, 2)])
      \<lparr>user = alice, query_params = Map.empty\<rparr> collections \<lparr>action = ''list''\<rparr>
     = Inr \<lparr>model = collection_model, rows = [hidden_collection]\<rparr>
   \<and> rows (owned_and_explicitly_shared (example_env [(-1, 1), (-1, 2)]) alice collections) = []
   \<and> rows (discoverable (public (example_env [(-1, 1), (-1, 2)]) collections))
       = [shown_collection]"
  by (simp add: KpiObjectPermissionsFilter_filter_queryset_def all_public_absent
      pipeline_defs example_defs)

text \<open>
  Claim C2. For a superuser, an operation other than "list" returns the base collection
  unchanged. For "list" there is no bypass: the filter never reads the superuser flag
  again, so the result is the one the same user would get without the flag, as long as
  the permission lookup of kpi/models/object_permission.py (a parameter here) does not
  read the flag either.
\<close>

theorem superuser_only_bypasses_non_list:
  assumes "is_superuser (user req)"
  shows "(action vw \<noteq> ''list'' \<longrightarrow>
            KpiObjectPermissionsFilter_filter_queryset env req qs vw = Inr qs)
    \<and> (action vw = ''list''
         \<and> get_objects_for_user env (user req)
             = get_objects_for_user env ((user req)\<lparr>is_superuser := False\<rparr>)
       \<longrightarrow> KpiObjectPermissionsFilter_filter_queryset env req qs vw
           = KpiObjectPermissionsFilter_filter_queryset env
               (req\<lparr>user := (user req)\<lparr>is_superuser := False\<rparr>\<rparr>) qs vw)"
  using assms
  by (auto simp add: KpiObjectPermissionsFilter_filter_queryset_def Let_def
      owned_and_explicitly_shared_def effective_user_def all_public_def subscribed_def
      split: sum.splits)

theorem superuser_only_bypasses_non_list_witness:
  "KpiObjectPermissionsFilter_filter_queryset (example_env [(-1, 1), (-1, 2), (1, 1)])
      \<lparr>user = root, query_params = Map.empty\<rparr> collections \<lparr>action = ''retrieve''\<rparr>
     = Inr collections
   \<and> KpiObjectPermissionsFilter_filter_queryset (example_env [(-1, 1), (-1, 2), (1, 1)])
      \<lparr>user = root, query_params = Map.empty\<rparr> collections \<lparr>action = ''list''\<rparr>
     = KpiObjectPermissionsFilter_filter_queryset (example_env [(-1, 1), (-1, 2), (1, 1)])
      \<lparr>user = root\<lparr>is_superuser := False\<rparr>, query_params = Map.empty\<rparr> collections
      \<lparr>action = ''list''\<rparr>
   \<and> KpiObjectPermissionsFilter_filter_queryset (example_env [(-1, 1), (-1, 2), (1, 1)])
      \<lparr>user = root, query_params = Map.empty\<rparr> collections \<lparr>action = ''list''\<rparr>
     = Inr \<lparr>model = collection_model, rows = [hidden_collection]\<rparr>"
proof -
  let ?env = "example_env [(-1, 1), (-1, 2), (1, 1)]"
  let ?req = "\<lparr>user = root, query_params = Map.empty\<rparr>"
  have su: "is_superuser (user ?req)" by (simp add: root_def)
  have same: "get_objects_for_user ?env (user ?req)
      = get_objects_for_user ?env ((user ?req)\<lparr>is_superuser := False\<rparr>)"
    by (simp add: example_defs fun_eq_iff)
  have a: "KpiObjectPermissionsFilter_filter_queryset ?env ?req collections
             \<lparr>action = ''retrieve''\<rparr> = Inr collections"
    using superuser_only_bypasses_non_list [OF su, of "\<lparr>action = ''retrieve''\<rparr>" ?env collections]
    by simp
  have b: "KpiObjectPermissionsFilter_filter_queryset ?env ?req collections \<lparr>action = ''list''\<rparr>
     = KpiObjectPermissionsFilter_filter_queryset ?env
         (?req\<lparr>user := (user ?req)\<lparr>is_superuser := False\<rparr>\<rparr>) collections \<lparr>action = ''list''\<rparr>"
    using superuser_only_bypasses_non_list [OF su, of "\<lparr>action = ''list''\<rparr>" ?env collections] same
    by simp
  have c: "KpiObjectPermissionsFilter_filter_queryset ?env ?req collections \<lparr>action = ''list''\<rparr>
     = Inr \<lparr>model = collection_model, rows = [hidden_collection]\<rparr>"
    by (simp add: KpiObjectPermissionsFilter_filter_queryset_def all_public_absent
        pipeline_defs example_defs)
  from a b c show ?thesis by simp
qed



section \<open>Properties of KpiAssignedObjectPermissionsFilter\<close>

text \<open>
  Claim C5. The claim: a regular user sees the permission rows whose object (content
  type and object id) is one a row addressed to them is about, and never a row of
  another content type whose object id merely coincides. The loop of lines 251-258 runs
  once per content type, but its outer query compares the object id alone (line 254),
  so the rows of every content type with that object id are collected. Here alice has
  a permission on object 5 of content type 1; the row of content type 2 about its own
  object 5, addressed to somebody else, is returned to her as well, although no row
  addressed to alice has content type 2.
\<close>

theorem colliding_object_id_is_visible:
  "KpiAssignedObjectPermissionsFilter_filter_queryset anonymous (-1)
     \<lparr>user = alice, query_params = Map.empty\<rparr> [alice_grant, carol_grant]
     = [alice_grant, carol_grant]
   \<and> op_user carol_grant \<noteq> user_id alice
   \<and> map content_type_id
         (filter (\<lambda>g. op_user g = user_id alice) [alice_grant, carol_grant]) = [1]
   \<and> content_type_id carol_grant = 2"
  by (simp add: KpiAssignedObjectPermissionsFilter_filter_queryset_def alice_grant_def
      carol_grant_def alice_def anonymous_def)

section \<open>Properties of SearchFilter\<close>

lemmas search_example_defs = asset_model_def tag_model_def library_def other_library_def
  question_asset_def block_asset_def survey_asset_def stray_block_def orphan_block_def
  assets_def tags_def no_tags_def no_assets_def example_index_def collection_document_def

lemma qs_filter_rows: "qs_filter kwargs qs = Inr r \<Longrightarrow> set (rows r) \<subseteq> set (rows qs)"
  by (auto simp add: qs_filter_def split: if_splits)

lemma narrow_parent_cases:
  "narrow_parent req qs0 =
     (if query_params req ''parent'' = Some [] then
        (if has_parent (model qs0)
         then Inr (qs0\<lparr>rows := filter (\<lambda>r. parent r = None) (rows qs0)\<rparr>)
         else Inl FieldError)
      else Inr qs0)"
  by (simp add: narrow_parent_def qs_filter_def)

lemma narrow_parent_model: "narrow_parent req qs0 = Inr qs \<Longrightarrow> model qs = model qs0"
  by (auto simp add: narrow_parent_cases split: if_splits)

lemma narrow_parent_rows: "narrow_parent req qs0 = Inr qs \<Longrightarrow> set (rows qs) \<subseteq> set (rows qs0)"
  by (auto simp add: narrow_parent_cases split: if_splits)

lemma none_narrowed: "narrow_parent req qs0 = Inr qs \<Longrightarrow> none qs = none qs0"
  by (auto simp add: narrow_parent_cases none_def split: if_splits)

lemma empty_rows_update: "rows qs = [] \<Longrightarrow> qs\<lparr>rows := []\<rparr> = qs"
  by (cases qs) simp

lemma library_query_misses_table:
  "COMMON_QUERY_TO_ORM_FILTER
     ''(asset_type:question OR asset_type:block) AND (parent__uid:abc123)'' = None"
  by (simp add: COMMON_QUERY_TO_ORM_FILTER_def)

lemma library_query_matches:
  "library_collection_match
     ''(asset_type:question OR asset_type:block) AND (parent__uid:abc123)''
   = Some (''asset_type:question OR asset_type:block'', ''abc123'')"
  by code_simp

lemma library_query_types:
  "asset_types ''asset_type:question OR asset_type:block'' = Inr [''question'', ''block'']"
  by (simp add: asset_types_def split_def)

lemma free_text_misses:
  "COMMON_QUERY_TO_ORM_FILTER ''household'' = None"
  "library_collection_match ''household'' = None"
  by (simp_all add: COMMON_QUERY_TO_ORM_FILTER_def library_collection_match_def
      library_collection_pattern_def lit_def)

text \<open>
  Claim C6. A query that reaches the index (it misses the table and the pattern, the
  collection, as narrowed by an empty \<open>parent\<close> parameter, has rows, the backend is
  Whoosh and the parser accepts the text), that has no match, on an index holding no
  document at all of the model's content type: the filter returns the collection it
  would have searched in, not an empty one. That collection is the input itself unless
  the request also carries an empty \<open>parent\<close> parameter.
\<close>

theorem empty_index_falls_back:
  assumes "narrow_parent req qs0 = Inr qs"
    and "query_params req ''q'' = Some q"
    and "COMMON_QUERY_TO_ORM_FILTER q = None"
    and "library_collection_match q = None"
    and "rows qs \<noteq> []"
    and "backend_is_whoosh env"
    and "parse env q = Some user_query"
    and "filter (\<lambda>d. user_query d \<and> filter_query env req (model qs) d) (index_documents env) = []"
    and "filter (\<lambda>d. django_ct d = get_model_ct (model qs)) (index_documents env) = []"
  shows "snd (SearchFilter_filter_queryset env req qs0) = Inr qs"
proof -
  have "filter (filter_query env req (model qs)) (index_documents env) = []"
    using assms(9) by (auto simp add: filter_empty_conv filter_query_def)
  with assms show ?thesis
    by (simp add: SearchFilter_filter_queryset_def whoosh_def Let_def)
qed

theorem empty_index_falls_back_witness:
  "snd (SearchFilter_filter_queryset (example_index [collection_document])
          \<lparr>user = alice, query_params = [''q'' \<mapsto> ''household'']\<rparr> assets) = Inr assets
   \<and> rows assets \<noteq> []
   \<and> filter (\<lambda>d. django_ct d = get_model_ct (model assets))
        (index_documents (example_index [collection_document])) = []"
proof -
  let ?env = "example_index [collection_document]"
  let ?req = "\<lparr>user = alice, query_params = [''q'' \<mapsto> ''household'']\<rparr>"
  have 1: "narrow_parent ?req assets = Inr assets" by (simp add: narrow_parent_cases)
  have 2: "query_params ?req ''q'' = Some ''household''" by simp
  have 5: "rows assets \<noteq> []" by (simp add: assets_def)
  have 6: "backend_is_whoosh ?env" by (simp add: example_index_def)
  have 7: "parse ?env ''household'' = Some (\<lambda>d. body d = ''household'')"
    by (simp add: example_index_def)
  have 9: "filter (\<lambda>d. django_ct d = get_model_ct (model assets)) (index_documents ?env) = []"
    by (simp add: example_index_def collection_document_def assets_def asset_model_def
        get_model_ct_def)
  have 8: "filter (\<lambda>d. body d = ''household'' \<and> filter_query ?env ?req (model assets) d)
             (index_documents ?env) = []"
    by (simp add: example_index_def collection_document_def assets_def asset_model_def
        get_model_ct_def filter_query_def)
  from empty_index_falls_back [OF 1 2 free_text_misses 5 6 7 8 9] 5 9 show ?thesis by simp
qed

text \<open>
  Claim C7, as amended. The claim: for a query that the table or the pattern recognizes,
  a predicate naming a field that the model does not declare gives the empty set, and
  the filter never raises. The FieldError of the predicate is caught (lines 162-165 and
  181-182), but the narrowing by an empty \<open>parent\<close> parameter comes first (lines
  135-138) and is not guarded. So: when the request does not carry an empty \<open>parent\<close>
  parameter on a model without \<open>parent\<close>, and the query is in the table, or matches the
  pattern with a list of types that can be read off group 1, and its predicate does not
  resolve, then the filter returns the empty set, without raising and without an event
  at the search backend.
\<close>

theorem schema_mismatch_gives_empty:
  assumes "query_params req ''parent'' = Some [] \<longrightarrow> has_parent (model qs0)"
    and "query_params req ''q'' = Some q"
    and "(\<exists>kwargs. COMMON_QUERY_TO_ORM_FILTER q = Some kwargs
            \<and> \<not> list_all (resolves (model qs0)) kwargs)
       \<or> (COMMON_QUERY_TO_ORM_FILTER q = None
            \<and> (\<exists>g1 g2 types. library_collection_match q = Some (g1, g2)
                  \<and> asset_types g1 = Inr types
                  \<and> \<not> list_all (resolves (model qs0)) [Asset_type__in types, Parent__uid g2]))"
  shows "SearchFilter_filter_queryset env req qs0 = ([], Inr (none qs0))"
proof -
  from assms(1) have "\<exists>qs. narrow_parent req qs0 = Inr qs"
    by (simp add: narrow_parent_cases)
  then obtain qs where n: "narrow_parent req qs0 = Inr qs" ..
  then have m: "model qs = model qs0" and e: "none qs = none qs0"
    by (simp_all add: narrow_parent_model none_narrowed)
  from assms(3) show ?thesis
  proof
    assume "\<exists>kwargs. COMMON_QUERY_TO_ORM_FILTER q = Some kwargs
            \<and> \<not> list_all (resolves (model qs0)) kwargs"
    then obtain kwargs where c: "COMMON_QUERY_TO_ORM_FILTER q = Some kwargs"
      and k: "\<not> list_all (resolves (model qs0)) kwargs" by blast
    from k have "qs_filter kwargs qs = Inl FieldError"
      by (simp add: qs_filter_def m)
    with c n e assms(2) show ?thesis
      by (simp add: SearchFilter_filter_queryset_def)
  next
    assume "COMMON_QUERY_TO_ORM_FILTER q = None
            \<and> (\<exists>g1 g2 types. library_collection_match q = Some (g1, g2)
                  \<and> asset_types g1 = Inr types
                  \<and> \<not> list_all (resolves (model qs0)) [Asset_type__in types, Parent__uid g2])"
    then obtain g1 g2 types where c: "COMMON_QUERY_TO_ORM_FILTER q = None"
      and l: "library_collection_match q = Some (g1, g2)" and t: "asset_types g1 = Inr types"
      and k: "\<not> list_all (resolves (model qs0)) [Asset_type__in types, Parent__uid g2]"
      by blast
    from k have "qs_filter [Asset_type__in types, Parent__uid g2] qs = Inl FieldError"
      by (simp add: qs_filter_def m)
    with c l t n e assms(2) show ?thesis
      by (simp add: SearchFilter_filter_queryset_def)
  qed
qed

theorem schema_mismatch_gives_empty_witness:
  "SearchFilter_filter_queryset (example_index [])
     \<lparr>user = alice, query_params = [''q'' \<mapsto> ''asset_type:block'']\<rparr> tags
     = ([], Inr \<lparr>model = tag_model, rows = []\<rparr>)
   \<and> SearchFilter_filter_queryset (example_index [])
     \<lparr>user = alice, query_params =
        [''q'' \<mapsto> ''(asset_type:question OR asset_type:block) AND (parent__uid:abc123)'']\<rparr> tags
     = ([], Inr \<lparr>model = tag_model, rows = []\<rparr>)"
proof -
  let ?req = "\<lparr>user = alice, query_params = [''q'' \<mapsto> ''asset_type:block'']\<rparr>"
  let ?q = "''(asset_type:question OR asset_type:block) AND (parent__uid:abc123)''"
  let ?req' = "\<lparr>user = alice, query_params = [''q'' \<mapsto> ?q]\<rparr>"
  have p: "query_params ?req ''parent'' = Some [] \<longrightarrow> has_parent (model tags)"
    and p': "query_params ?req' ''parent'' = Some [] \<longrightarrow> has_parent (model tags)"
    by simp_all
  have q: "query_params ?req ''q'' = Some ''asset_type:block''"
    and q': "query_params ?req' ''q'' = Some ?q" by simp_all
  have "COMMON_QUERY_TO_ORM_FILTER ''asset_type:block'' = Some [Asset_type ''block'']
        \<and> \<not> list_all (resolves (model tags)) [Asset_type ''block'']"
    by (simp add: COMMON_QUERY_TO_ORM_FILTER_def tags_def tag_model_def)
  then have t: "(\<exists>kwargs. COMMON_QUERY_TO_ORM_FILTER ''asset_type:block'' = Some kwargs
            \<and> \<not> list_all (resolves (model tags)) kwargs)
       \<or> (COMMON_QUERY_TO_ORM_FILTER ''asset_type:block'' = None
            \<and> (\<exists>g1 g2 types. library_collection_match ''asset_type:block'' = Some (g1, g2)
                  \<and> asset_types g1 = Inr types
                  \<and> \<not> list_all (resolves (model tags)) [Asset_type__in types, Parent__uid g2]))"
    by blast
  have "\<not> list_all (resolves (model tags)) [Asset_type__in [''question'', ''block''], Parent__uid ''abc123'']"
    by (simp add: tags_def tag_model_def)
  with library_query_misses_table library_query_matches library_query_types
  have t': "(\<exists>kwargs. COMMON_QUERY_TO_ORM_FILTER ?q = Some kwargs
            \<and> \<not> list_all (resolves (model tags)) kwargs)
       \<or> (COMMON_QUERY_TO_ORM_FILTER ?q = None
            \<and> (\<exists>g1 g2 types. library_collection_match ?q = Some (g1, g2)
                  \<and> asset_types g1 = Inr types
                  \<and> \<not> list_all (resolves (model tags)) [Asset_type__in types, Parent__uid g2]))"
    by blast
  have n: "none tags = \<lparr>model = tag_model, rows = []\<rparr>"
    by (simp add: none_def tags_def)
  from schema_mismatch_gives_empty [OF p q t, of "example_index []"]
    schema_mismatch_gives_empty [OF p' q' t', of "example_index []"] n
  show ?thesis by simp
qed

text \<open>
  The claim C7 as it is written fails here: the query is in the table, its predicate
  names \<open>asset_type\<close>, which the model of tags does not declare, and the request also
  carries an empty \<open>parent\<close> parameter; the model has no \<open>parent\<close> either, and the
  filter raises FieldError.
\<close>

theorem schema_mismatch_after_parent_raises:
  "SearchFilter_filter_queryset (example_index [])
     \<lparr>user = alice, query_params = [''parent'' \<mapsto> [], ''q'' \<mapsto> ''asset_type:block'']\<rparr> tags
     = ([], Inl FieldError)
   \<and> COMMON_QUERY_TO_ORM_FILTER ''asset_type:block'' = Some [Asset_type ''block'']
   \<and> \<not> list_all (resolves (model tags)) [Asset_type ''block'']"
  by (simp add: SearchFilter_filter_queryset_def narrow_parent_cases
      COMMON_QUERY_TO_ORM_FILTER_def tags_def tag_model_def)

text \<open>
  Claim C8. On a model that declares \<open>asset_type\<close> and a parent with a \<open>uid\<close>, the query
  \<open>(asset_type:question OR asset_type:block) AND (parent__uid:abc123)\<close> is answered by
  the pattern rule: the result is exactly the rows of type question or block whose
  parent has the uid abc123, and there is no event at the search backend. (If the
  request also carries an empty \<open>parent\<close> parameter, the rows must have no parent as
  well, which none of them has.)
\<close>

theorem library_collection_query_is_rewritten:
  assumes "has_asset_type (model qs0)" and "has_parent (model qs0)"
    and "parent_has_uid (model qs0)"
    and "query_params req ''q''
           = Some ''(asset_type:question OR asset_type:block) AND (parent__uid:abc123)''"
  shows "SearchFilter_filter_queryset env req qs0 =
     ([], Inr (qs0\<lparr>rows := filter
        (\<lambda>r. (query_params req ''parent'' = Some [] \<longrightarrow> parent r = None)
              \<and> (asset_type r = ''question'' \<or> asset_type r = ''block'')
              \<and> (\<exists>p. parent r = Some p \<and> uid p = ''abc123'')) (rows qs0)\<rparr>))"
proof -
  have h: "\<And>r. (case parent r of None \<Rightarrow> False | Some p \<Rightarrow> uid p = ''abc123'')
       = (\<exists>p. parent r = Some p \<and> uid p = ''abc123'')"
    by (simp split: option.splits)
  show ?thesis
    using assms
    by (auto simp add: SearchFilter_filter_queryset_def narrow_parent_cases
        library_query_misses_table library_query_matches library_query_types qs_filter_def h
        intro!: filter_cong)
qed

theorem library_collection_query_is_rewritten_witness:
  "SearchFilter_filter_queryset (example_index [])
     \<lparr>user = alice, query_params =
        [''q'' \<mapsto> ''(asset_type:question OR asset_type:block) AND (parent__uid:abc123)'']\<rparr>
     assets
   = ([], Inr \<lparr>model = asset_model, rows = [question_asset, block_asset]\<rparr>)"
proof -
  let ?q = "''(asset_type:question OR asset_type:block) AND (parent__uid:abc123)''"
  let ?req = "\<lparr>user = alice, query_params = [''q'' \<mapsto> ?q]\<rparr>"
  have 1: "has_asset_type (model assets)" and 2: "has_parent (model assets)"
    and 3: "parent_has_uid (model assets)"
    by (simp_all add: assets_def asset_model_def)
  have 4: "query_params ?req ''q'' = Some ?q" by simp
  from library_collection_query_is_rewritten [OF 1 2 3 4, of "example_index []"]
  show ?thesis
    by (simp add: assets_def library_def other_library_def question_asset_def
        block_asset_def survey_asset_def stray_block_def orphan_block_def)
qed

lemma empty_collection_result:
  assumes "query_params req ''q'' = Some q"
    and "COMMON_QUERY_TO_ORM_FILTER q = None"
    and "library_collection_match q = None"
    and "rows qs0 = []"
  shows "SearchFilter_filter_queryset env req qs0 =
     ([], if query_params req ''parent'' = Some [] \<and> \<not> has_parent (model qs0)
          then Inl FieldError else Inr qs0)"
  using assms
  by (simp add: SearchFilter_filter_queryset_def narrow_parent_cases whoosh_def
      empty_rows_update)

text \<open>
  Claim C10, as amended. The claim: when \<open>q\<close> misses the table and the pattern and the
  collection is empty, the filter returns it unchanged without going to the search
  backend, so that neither the unsupported-backend error nor the empty-index fall-back
  can occur. What holds: there is no event at the search backend, hence neither of the
  two; and the collection is returned unchanged provided the request does not carry an
  empty \<open>parent\<close> parameter on a model without \<open>parent\<close> (the narrowing of lines
  135-138 comes before \<open>q\<close> is read).
\<close>

theorem empty_collection_skips_backend:
  assumes "query_params req ''q'' = Some q"
    and "COMMON_QUERY_TO_ORM_FILTER q = None"
    and "library_collection_match q = None"
    and "rows qs0 = []"
  shows "fst (SearchFilter_filter_queryset env req qs0) = []
    \<and> snd (SearchFilter_filter_queryset env req qs0) \<noteq> Inl NotImplementedError
    \<and> ((query_params req ''parent'' = Some [] \<longrightarrow> has_parent (model qs0))
         \<longrightarrow> SearchFilter_filter_queryset env req qs0 = ([], Inr qs0))"
  using empty_collection_result [OF assms, of env] by auto

theorem empty_collection_skips_backend_witness:
  "SearchFilter_filter_queryset
     ((example_index [collection_document])\<lparr>backend_is_whoosh := False\<rparr>)
     \<lparr>user = alice, query_params = [''parent'' \<mapsto> [], ''q'' \<mapsto> ''household'']\<rparr> no_assets
   = ([], Inr no_assets)
   \<and> rows no_assets = []
   \<and> has_parent (model no_assets)"
proof -
  let ?req = "\<lparr>user = alice, query_params = [''parent'' \<mapsto> [], ''q'' \<mapsto> ''household'']\<rparr>"
  have 1: "query_params ?req ''q'' = Some ''household''" by simp
  have 4: "rows no_assets = []" by (simp add: no_assets_def)
  have 5: "has_parent (model no_assets)" by (simp add: no_assets_def asset_model_def)
  from empty_collection_skips_backend [OF 1 free_text_misses 4,
      of "(example_index [collection_document])\<lparr>backend_is_whoosh := False\<rparr>"] 4 5
  show ?thesis by simp
qed

text \<open>
  The claim C10 as it is written fails here: \<open>q\<close> misses the table and the pattern and
  the collection is empty, but the request carries an empty \<open>parent\<close> parameter and the
  model of tags has no \<open>parent\<close>; the filter raises FieldError instead of returning the
  collection.
\<close>

theorem empty_collection_parent_raises:
  "SearchFilter_filter_queryset (example_index [])
     \<lparr>user = alice, query_params = [''parent'' \<mapsto> [], ''q'' \<mapsto> ''household'']\<rparr> no_tags
     = ([], Inl FieldError)
   \<and> rows no_tags = []
   \<and> COMMON_QUERY_TO_ORM_FILTER ''household'' = None
   \<and> library_collection_match ''household'' = None"
  by (simp add: SearchFilter_filter_queryset_def narrow_parent_cases free_text_misses
      no_tags_def tag_model_def)

section \<open>No filter adds rows\<close>

lemma discoverable_rows: "set (rows (discoverable pub)) \<subseteq> set (rows pub)"
  by (auto simp add: discoverable_def none_def split: sum.splits dest: qs_filter_rows)

lemma subscribed_rows: "set (rows (subscribed pub u)) \<subseteq> set (rows pub)"
  by (auto simp add: subscribed_def none_def split: sum.splits dest: qs_filter_rows)

lemma permissions_filter_rows:
  assumes sub: "\<And>u p q. set (rows (get_objects_for_user env u p q)) \<subseteq> set (rows q)"
    and res: "KpiObjectPermissionsFilter_filter_queryset env req qs vw = Inr r"
  shows "set (rows r) \<subseteq> set (rows qs)"
proof -
  have pub: "set (rows (public env qs)) \<subseteq> set (rows qs)"
    using sub by (simp add: public_def)
  have own: "set (rows (owned_and_explicitly_shared env (user req) qs)) \<subseteq> set (rows qs)"
    using sub by (simp add: owned_and_explicitly_shared_def none_def)
  have dis: "set (rows (discoverable (public env qs))) \<subseteq> set (rows qs)"
    using discoverable_rows pub by blast
  have subs: "set (rows (subscribed (public env qs) (effective_user env (user req))))
                \<subseteq> set (rows qs)"
    using subscribed_rows pub by blast
  from res show ?thesis
    using pub own dis subs
    by (auto simp add: KpiObjectPermissionsFilter_filter_queryset_def Let_def distinct_qs_def
        qs_or_def split: if_splits sum.splits)
qed

lemma whoosh_rows: "snd (whoosh env req q qs) = Inr r \<Longrightarrow> set (rows r) \<subseteq> set (rows qs)"
  by (auto simp add: whoosh_def Let_def split: if_splits option.splits sum.splits
      dest: qs_filter_rows)

lemma search_filter_rows:
  assumes "snd (SearchFilter_filter_queryset env req qs0) = Inr r"
  shows "set (rows r) \<subseteq> set (rows qs0)"
proof (cases "narrow_parent req qs0")
  case (Inl e)
  with assms show ?thesis by (simp add: SearchFilter_filter_queryset_def)
next
  case (Inr qs)
  then have n: "set (rows qs) \<subseteq> set (rows qs0)" by (rule narrow_parent_rows)
  have "set (rows r) \<subseteq> set (rows qs)"
    using assms Inr
    by (auto simp add: SearchFilter_filter_queryset_def none_def
        split: option.splits sum.splits if_splits dest: qs_filter_rows whoosh_rows)
  with n show ?thesis by blast
qed

lemma assigned_filter_rows:
  "set (KpiAssignedObjectPermissionsFilter_filter_queryset anon aid req queryset)
     \<subseteq> set queryset"
  by (auto simp add: KpiAssignedObjectPermissionsFilter_filter_queryset_def Let_def)

text \<open>
  Claim C4. Whatever a filter returns is made of rows of the collection it was given:
  the permission filter (as long as \<open>get_objects_for_user\<close>, a parameter here, selects
  among the rows of the queryset it is given), the search filter, and the filter of
  permission rows.
\<close>

theorem filters_never_add_rows:
  "((\<forall>u p q. set (rows (get_objects_for_user penv u p q)) \<subseteq> set (rows q))
      \<and> KpiObjectPermissionsFilter_filter_queryset penv req qs vw = Inr r
     \<longrightarrow> set (rows r) \<subseteq> set (rows qs))
   \<and> (snd (SearchFilter_filter_queryset senv req' qs') = Inr r'
     \<longrightarrow> set (rows r') \<subseteq> set (rows qs'))
   \<and> set (KpiAssignedObjectPermissionsFilter_filter_queryset anon aid req'' grants)
       \<subseteq> set grants"
  using permissions_filter_rows [of penv req qs vw r] search_filter_rows [of senv req' qs' r']
    assigned_filter_rows [of anon aid req'' grants]
  by blast

theorem filters_never_add_rows_witness:
  "(\<forall>u p q. set (rows (get_objects_for_user (example_env [(-1, 1), (-1, 2)]) u p q))
              \<subseteq> set (rows q))
   \<and> KpiObjectPermissionsFilter_filter_queryset (example_env [(-1, 1), (-1, 2)])
        \<lparr>user = alice, query_params = Map.empty\<rparr> collections \<lparr>action = ''list''\<rparr>
       = Inr \<lparr>model = collection_model, rows = [hidden_collection]\<rparr>
   \<and> set [hidden_collection] \<subseteq> set (rows collections)
   \<and> snd (SearchFilter_filter_queryset (example_index [])
        \<lparr>user = alice, query_params = [''q'' \<mapsto> ''asset_type:survey'']\<rparr> assets)
       = Inr \<lparr>model = asset_model, rows = [survey_asset]\<rparr>
   \<and> set [survey_asset] \<subseteq> set (rows assets)
   \<and> set (KpiAssignedObjectPermissionsFilter_filter_queryset anonymous (-1)
        \<lparr>user = alice, query_params = Map.empty\<rparr> [alice_grant, carol_grant])
       \<subseteq> set [alice_grant, carol_grant]"
proof -
  let ?penv = "example_env [(-1, 1), (-1, 2)]"
  let ?req = "\<lparr>user = alice, query_params = Map.empty\<rparr>"
  let ?req' = "\<lparr>user = alice, query_params = [''q'' \<mapsto> ''asset_type:survey'']\<rparr>"
  let ?r = "\<lparr>model = collection_model, rows = [hidden_collection]\<rparr>"
  let ?r' = "\<lparr>model = asset_model, rows = [survey_asset]\<rparr>"
  have 1: "\<forall>u p q. set (rows (get_objects_for_user ?penv u p q)) \<subseteq> set (rows q)"
    by (auto simp add: example_env_def objects_granted_def)
  have 2: "KpiObjectPermissionsFilter_filter_queryset ?penv ?req collections
             \<lparr>action = ''list''\<rparr> = Inr ?r"
    by (simp add: KpiObjectPermissionsFilter_filter_queryset_def all_public_absent
        pipeline_defs example_defs)
  have 3: "snd (SearchFilter_filter_queryset (example_index []) ?req' assets) = Inr ?r'"
    by (simp add: SearchFilter_filter_queryset_def narrow_parent_cases
        COMMON_QUERY_TO_ORM_FILTER_def qs_filter_def search_example_defs)
  from filters_never_add_rows [of ?penv ?req collections "\<lparr>action = ''list''\<rparr>" ?r
      "example_index []" ?req' assets ?r' anonymous "-1" ?req "[alice_grant, carol_grant]"]
    1 2 3
  show ?thesis by simp
qed

section \<open>Properties of AttachmentFilter\<close>













end
